theory Spec2Isabelle
  imports Main "HOL-Library.Sublist"
begin

section \<open>Exceptions\<close>

text \<open>
  Exception classes form a tree rooted at \<open>BaseException\<close>; a class is named and has one
  base. \<open>Exception\<close> and the classes that do not derive from it (\<open>KeyboardInterrupt\<close>,
  \<open>SystemExit\<close>) are the built-in ones of Python.
\<close>

datatype exc_kind = BaseException | Subclass string exc_kind

definition Exception :: exc_kind where
  "Exception = Subclass ''Exception'' BaseException"

definition KeyboardInterrupt :: exc_kind where
  "KeyboardInterrupt = Subclass ''KeyboardInterrupt'' BaseException"

definition ValueError :: exc_kind where
  "ValueError = Subclass ''ValueError'' Exception"

definition LookupError :: exc_kind where
  "LookupError = Subclass ''LookupError'' Exception"

definition KeyError :: exc_kind where
  "KeyError = Subclass ''KeyError'' LookupError"

definition ImportError :: exc_kind where
  "ImportError = Subclass ''ImportError'' Exception"

definition ConfigError :: exc_kind where
  "ConfigError = Subclass ''ConfigError'' Exception"

definition TransportError :: exc_kind where
  "TransportError = Subclass ''TransportError'' Exception"

primrec issubclass :: "exc_kind \<Rightarrow> exc_kind \<Rightarrow> bool" where
  "issubclass BaseException c = (c = BaseException)"
| "issubclass (Subclass n b) c = (c = Subclass n b \<or> issubclass b c)"

text \<open>
  An exception object: its class, its message and the exception that was being handled
  when it was raised (Python's \<open>__context__\<close>).
\<close>

datatype py_exc = PyExc (kind: exc_kind) (message: string) (ctx: "py_exc option")

text \<open>
  An exception gets its context where it is raised: the exception under handling at that
  point. The dispatch runs while the original exception \<open>exc\<close> is under handling. An
  error \<open>err\<close> of the dispatch comes with the contexts set inside the dispatch (an
  error raised in an \<open>except\<close> block of the transport client has the exception handled
  there as its context); the first exception of that chain was raised with \<open>exc\<close> under
  handling, so \<open>exc\<close> stands at the end of the chain. Kind and message of the error are
  unchanged.
\<close>

fun raised_while_handling :: "py_exc \<Rightarrow> py_exc \<Rightarrow> py_exc" where
  "raised_while_handling (PyExc k m None) exc = PyExc k m (Some exc)"
| "raised_while_handling (PyExc k m (Some inner)) exc =
     PyExc k m (Some (raised_while_handling inner exc))"

text \<open>
  The \<open>exceptions\<close> parameter: one class or a tuple of classes, or absent.
  \<open>exceptions = exceptions or Exception\<close> replaces every falsy value; of the values of
  the parameter's type these are \<open>None\<close> and the empty tuple.
\<close>

datatype exc_filter = Single exc_kind | Tuple "exc_kind list"

fun exceptions_or_default :: "exc_filter option \<Rightarrow> exc_filter" where
  "exceptions_or_default None = Single Exception"
| "exceptions_or_default (Some (Tuple [])) = Single Exception"
| "exceptions_or_default (Some f) = f"

text \<open>The test of \<open>except exceptions as exc\<close>.\<close>

fun except_matches :: "exc_filter \<Rightarrow> py_exc \<Rightarrow> bool" where
  "except_matches (Single c) e = issubclass (kind e) c"
| "except_matches (Tuple cs) e = list_ex (issubclass (kind e)) cs"

section \<open>The environment of a call\<close>

record datetime =
  year :: nat
  month :: nat
  day :: nat
  hour :: nat
  minute :: nat
  second :: nat
  microsecond :: nat

text \<open>
  What the handlers read from outside the module: the setting
  \<open>Env.EASY_NOTIFYER_FILENAME_DT_FORMAT\<close>, the clock (\<open>datetime.now()\<close>), the standard
  library's \<open>strftime\<close> and \<open>traceback.format_exc()\<close>.
\<close>

record env =
  dt_format :: string
  now :: datetime
  strftime :: "datetime \<Rightarrow> string \<Rightarrow> string"
  format_exc :: "py_exc \<Rightarrow> string"

text \<open>
  A model of \<open>strftime\<close> for the directives of the default pattern
  \<open>%Y-%m-%d %H_%M_%S\<close> and \<open>%f\<close>, for concrete runs.
\<close>

definition digit :: "nat \<Rightarrow> char" where
  "digit n = ''0123456789'' ! (n mod 10)"

fun zfill :: "nat \<Rightarrow> nat \<Rightarrow> string" where
  "zfill 0 n = []"
| "zfill (Suc w) n = zfill w (n div 10) @ [digit n]"

definition directive :: "datetime \<Rightarrow> char \<Rightarrow> string" where
  "directive d x =
     (if x = CHR ''Y'' then zfill 4 (year d)
      else if x = CHR ''m'' then zfill 2 (month d)
      else if x = CHR ''d'' then zfill 2 (day d)
      else if x = CHR ''H'' then zfill 2 (hour d)
      else if x = CHR ''M'' then zfill 2 (minute d)
      else if x = CHR ''S'' then zfill 2 (second d)
      else if x = CHR ''f'' then zfill 6 (microsecond d)
      else [CHR ''%'', x])"

fun py_strftime :: "datetime \<Rightarrow> string \<Rightarrow> string" where
  "py_strftime d [] = []"
| "py_strftime d [c] = [c]"
| "py_strftime d (c # x # rest) =
     (if c = CHR ''%'' then directive d x @ py_strftime d rest
      else c # py_strftime d (x # rest))"

definition default_dt_format :: string where
  "default_dt_format = ''%Y-%m-%d %H_%M_%S''"

section \<open>Reports\<close>

definition nl :: string where
  "nl = [CHR 0x0A]"

text \<open>The default header of the docstrings; the skull emoji is six bytes of UTF-8.\<close>

definition default_header :: string where
  "default_header =
     ''Your program has crashed '' @ [CHR 0xE2, CHR 0x98, CHR 0xA0, CHR 0xEF, CHR 0xB8, CHR 0x8F]"

record Report =
  report :: string
  attach :: "string option"

definition func_name_line :: "string option \<Rightarrow> string" where
  "func_name_line fn = (case fn of None \<Rightarrow> [] | Some n \<Rightarrow> n @ nl)"

text \<open>
  Modelled from the spec: the constructor of class \<open>Report\<close> (module
  \<open>easy_notifyer.report\<close> is not among the sources). Inline: header or default, a blank
  line, the function name line, the traceback text, and no attachment. Attached: header
  or default and the function name line as a caption, the traceback text as the
  attachment.
\<close>

definition Report_init :: "string \<Rightarrow> string option \<Rightarrow> string option \<Rightarrow> bool \<Rightarrow> Report" where
  "Report_init tback func_name header as_attached =
     (let head = (case header of None \<Rightarrow> default_header | Some h \<Rightarrow> h)
      in if as_attached
         then \<lparr>report = head @ nl @ func_name_line func_name, attach = Some tback\<rparr>
         else \<lparr>report = head @ nl @ nl @ func_name_line func_name @ tback, attach = None\<rparr>)"


definition report_maker :: "string \<Rightarrow> string option \<Rightarrow> string option \<Rightarrow> bool \<Rightarrow> Report" where
  "report_maker tback func_name header as_attached =
     Report_init tback func_name header as_attached"

section \<open>File names\<close>

definition get_filename :: "env \<Rightarrow> string option \<Rightarrow> string" where
  "get_filename ev filename =
     (case filename of
        None \<Rightarrow> strftime ev ((now ev)\<lparr>microsecond := 0\<rparr>) (dt_format ev) @ ''.txt''
      | Some f \<Rightarrow> f)"

section \<open>Dispatch\<close>

text \<open>
  Keyword arguments are a dictionary. \<open>filename\<close>, when given, is a string or \<open>None\<close>.
\<close>

datatype kwval = VNone | VStr string | VBool bool | VInt int

type_synonym kwargs = "string \<rightharpoonup> kwval"

text \<open>\<open>kwargs.pop('filename', None)\<close>: the value and the dictionary without the key.\<close>

definition pop_filename :: "kwargs \<Rightarrow> string option \<times> kwargs" where
  "pop_filename kw =
     ((case kw ''filename'' of Some (VStr s) \<Rightarrow> Some s | _ \<Rightarrow> None), kw(''filename'' := None))"

datatype chat_id = ChatId int | ChatIds "int list"

text \<open>
  The transport client (classes \<open>Telegram\<close> and \<open>TelegramAsync\<close>, not among the sources)
  is a parameter: its constructor and its two send operations, each of which returns or
  raises.
\<close>

record 'bot sink =
  new_bot :: "string option \<Rightarrow> chat_id option \<Rightarrow> py_exc + 'bot"
  send_message :: "'bot \<Rightarrow> string \<Rightarrow> kwargs \<Rightarrow> py_exc + unit"
  send_attach :: "'bot \<Rightarrow> string \<Rightarrow> string \<Rightarrow> string \<Rightarrow> kwargs \<Rightarrow> py_exc + unit"

text \<open>
  What a call does besides returning: the reports it builds and the operations of the
  transport client it invokes, in order.
\<close>

datatype event =
    MakeReport Report
  | SendMessage string kwargs
  | SendAttach string string string kwargs

definition report_handler ::
  "'bot sink \<Rightarrow> env \<Rightarrow> Report \<Rightarrow> string option \<Rightarrow> chat_id option \<Rightarrow> kwargs
     \<Rightarrow> event list \<times> (py_exc + unit)" where
  "report_handler snk ev rep token cid kw =
     (case new_bot snk token cid of
        Inl err \<Rightarrow> ([], Inl err)
      | Inr client \<Rightarrow>
          (case attach rep of
             Some payload \<Rightarrow>
               (let (fname, kw') = pop_filename kw;
                    filename = get_filename ev fname
                in ([SendAttach (report rep) payload filename kw'],
                    send_attach snk client (report rep) payload filename kw'))
           | None \<Rightarrow>
               ([SendMessage (report rep) kw], send_message snk client (report rep) kw)))"

text \<open>
  Modelled from the spec: \<open>run_sync\<close> (module \<open>easy_notifyer.utils\<close> is not among the
  sources) runs a blocking function off the event loop; awaited, it yields the
  function's result.
\<close>

definition run_sync :: "('a \<Rightarrow> 'b) \<Rightarrow> 'a \<Rightarrow> 'b" where
  "run_sync f x = f x"

definition async_report_handler ::
  "'bot sink \<Rightarrow> env \<Rightarrow> Report \<Rightarrow> string option \<Rightarrow> chat_id option \<Rightarrow> kwargs
     \<Rightarrow> event list \<times> (py_exc + unit)" where
  "async_report_handler snk ev rep token cid kw =
     (case new_bot snk token cid of
        Inl err \<Rightarrow> ([], Inl err)
      | Inr client \<Rightarrow>
          (case attach rep of
             Some payload \<Rightarrow>
               (let (fname, kw') = pop_filename kw;
                    filename = run_sync (get_filename ev) fname
                in ([SendAttach (report rep) payload filename kw'],
                    send_attach snk client (report rep) payload filename kw'))
           | None \<Rightarrow>
               ([SendMessage (report rep) kw], send_message snk client (report rep) kw)))"

section \<open>The decorators\<close>

text \<open>A callable: its \<open>__name__\<close> and what a call with given arguments does.\<close>

record ('a, 'r) callable =
  func_name :: string
  call :: "'a \<Rightarrow> py_exc + 'r"

text \<open>
  \<open>telegram_reporter(...)(func)(args)\<close>: the events of the call and its outcome, the
  value returned or the exception the caller observes.
\<close>

definition telegram_reporter ::
  "'bot sink \<Rightarrow> env \<Rightarrow> string option \<Rightarrow> chat_id option \<Rightarrow> exc_filter option
     \<Rightarrow> string option \<Rightarrow> bool \<Rightarrow> kwargs \<Rightarrow> ('a, 'r) callable \<Rightarrow> 'a
     \<Rightarrow> event list \<times> (py_exc + 'r)" where
  "telegram_reporter snk ev token cid exceptions header as_attached params func args =
     (let exceptions = exceptions_or_default exceptions
      in case call func args of
           Inr v \<Rightarrow> ([], Inr v)
         | Inl exc \<Rightarrow>
             if except_matches exceptions exc
             then
               (let fname = func_name func;
                    tback = format_exc ev exc;
                    rep = report_maker tback (Some fname) header as_attached;
                    (evs, res) = report_handler snk ev rep token cid params
                in case res of
                     Inl err \<Rightarrow> (MakeReport rep # evs, Inl (raised_while_handling err exc))
                   | Inr u \<Rightarrow> (MakeReport rep # evs, Inl exc))
             else ([], Inl exc))"

definition async_telegram_reporter ::
  "'bot sink \<Rightarrow> env \<Rightarrow> string option \<Rightarrow> chat_id option \<Rightarrow> exc_filter option
     \<Rightarrow> string option \<Rightarrow> bool \<Rightarrow> kwargs \<Rightarrow> ('a, 'r) callable \<Rightarrow> 'a
     \<Rightarrow> event list \<times> (py_exc + 'r)" where
  "async_telegram_reporter snk ev token cid exceptions header as_attached params func args =
     (let exceptions = exceptions_or_default exceptions
      in case call func args of
           Inr v \<Rightarrow> ([], Inr v)
         | Inl exc \<Rightarrow>
             if except_matches exceptions exc
             then
               (let fname = func_name func;
                    tback = format_exc ev exc;
                    rep = run_sync (\<lambda>tb. report_maker tb (Some fname) header as_attached) tback;
                    (evs, res) = async_report_handler snk ev rep token cid params
                in case res of
                     Inl err \<Rightarrow> (MakeReport rep # evs, Inl (raised_while_handling err exc))
                   | Inr u \<Rightarrow> (MakeReport rep # evs, Inl exc))
             else ([], Inl exc))"

section \<open>Importing the package\<close>

text \<open>
  The top-level statements of a module that bind names. A loader gives, for a module
  name, the names the module binds or the exception its import raises.
\<close>

datatype stmt = Import string | FromImport string "string list" | Def string | Assign string

type_synonym loader = "string \<Rightarrow> py_exc + string list"

definition cannot_import :: "string \<Rightarrow> string \<Rightarrow> py_exc" where
  "cannot_import n m = PyExc ImportError (''cannot import name '' @ n @ '' from '' @ m) None"

fun exec_stmt :: "loader \<Rightarrow> stmt \<Rightarrow> string list \<Rightarrow> py_exc + string list" where
  "exec_stmt ld (Import m) ns = (case ld m of Inl e \<Rightarrow> Inl e | Inr mns \<Rightarrow> Inr (ns @ [m]))"
| "exec_stmt ld (FromImport m names) ns =
     (case ld m of
        Inl e \<Rightarrow> Inl e
      | Inr mns \<Rightarrow>
          (case find (\<lambda>n. \<not> List.member mns n) names of
             Some n \<Rightarrow> Inl (cannot_import n m)
           | None \<Rightarrow> Inr (ns @ names)))"
| "exec_stmt ld (Def n) ns = Inr (ns @ [n])"
| "exec_stmt ld (Assign n) ns = Inr (ns @ [n])"

fun exec_module :: "loader \<Rightarrow> stmt list \<Rightarrow> string list \<Rightarrow> py_exc + string list" where
  "exec_module ld [] ns = Inr ns"
| "exec_module ld (s # ss) ns =
     (case exec_stmt ld s ns of Inl e \<Rightarrow> Inl e | Inr ns' \<Rightarrow> exec_module ld ss ns')"

definition handlers_py :: "stmt list" where
  "handlers_py =
     [Import ''functools'',
      Import ''traceback'',
      FromImport ''datetime'' [''datetime''],
      FromImport ''typing'' [''List'', ''Optional'', ''Tuple'', ''Type'', ''Union''],
      FromImport ''easy_notifyer.env'' [''Env''],
      FromImport ''easy_notifyer.report'' [''Report''],
      FromImport ''easy_notifyer.telegram'' [''Telegram'', ''TelegramAsync''],
      FromImport ''easy_notifyer.utils'' [''run_sync''],
      Def ''telegram_reporter'',
      Def ''async_telegram_reporter'',
      Def ''_get_filename'',
      Def ''_report_maker'',
      Def ''_report_handler'',
      Def ''_async_report_handler'']"

definition init_py :: "stmt list" where
  "init_py =
     [FromImport ''easy_notifyer.handlers'' [''mailer_reporter'', ''telegram_reporter''],
      FromImport ''easy_notifyer.mailer'' [''Mailer''],
      FromImport ''easy_notifyer.telegram'' [''Telegram'', ''TelegramAsync''],
      FromImport ''easy_notifyer.exceptions'' [''ConfigError''],
      Assign ''__version__'',
      Assign ''__all__'']"

definition dunder_all :: "string list" where
  "dunder_all =
     [''ConfigError'', ''Mailer'', ''Telegram'', ''TelegramAsync'', ''mailer_reporter'',
      ''telegram_reporter'']"

text \<open>
  \<open>import easy_notifyer\<close>: the package's \<open>__init__\<close> runs; its first statement imports
  the handlers module, which runs with the same loader for its own imports.
\<close>

definition import_easy_notifyer :: "loader \<Rightarrow> py_exc + string list" where
  "import_easy_notifyer ld =
     exec_module (ld(''easy_notifyer.handlers'' := exec_module ld handlers_py [])) init_py []"

text \<open>The names a module's statements bind.\<close>

fun binds :: "stmt \<Rightarrow> string list" where
  "binds (Import m) = [m]"
| "binds (FromImport m names) = names"
| "binds (Def n) = [n]"
| "binds (Assign n) = [n]"

definition bound_names :: "stmt list \<Rightarrow> string list" where
  "bound_names ss = concat (map binds ss)"

section \<open>Concrete inputs\<close>

primrec class_name :: "exc_kind \<Rightarrow> string" where
  "class_name BaseException = ''BaseException''"
| "class_name (Subclass n b) = n"

definition simple_format_exc :: "py_exc \<Rightarrow> string" where
  "simple_format_exc e =
     ''Traceback (most recent call last):'' @ nl @ class_name (kind e) @ '': '' @ message e @ nl"

definition ex_now :: datetime where
  "ex_now = \<lparr>year = 2021, month = 3, day = 4, hour = 5, minute = 6, second = 7,
             microsecond = 123456\<rparr>"

definition ex_env :: env where
  "ex_env = \<lparr>dt_format = default_dt_format, now = ex_now, strftime = py_strftime,
             format_exc = simple_format_exc\<rparr>"

definition ok_sink :: "unit sink" where
  "ok_sink = \<lparr>new_bot = (\<lambda>t c. Inr ()), send_message = (\<lambda>b m k. Inr ()),
              send_attach = (\<lambda>b m a f k. Inr ())\<rparr>"

definition timeout_sink :: "unit sink" where
  "timeout_sink = \<lparr>new_bot = (\<lambda>t c. Inr ()),
       send_message = (\<lambda>b m k. Inl (PyExc TransportError ''timed out'' None)),
       send_attach = (\<lambda>b m a f k. Inl (PyExc TransportError ''timed out'' None))\<rparr>"

text \<open>A client whose send operations fail inside an \<open>except\<close> block of their own.\<close>

definition wrapping_sink :: "unit sink" where
  "wrapping_sink = \<lparr>new_bot = (\<lambda>t c. Inr ()),
       send_message = (\<lambda>b m k.
         Inl (PyExc TransportError ''timed out'' (Some (PyExc ValueError ''inner'' None)))),
       send_attach = (\<lambda>b m a f k.
         Inl (PyExc TransportError ''timed out'' (Some (PyExc ValueError ''inner'' None))))\<rparr>"

definition unconfigured_sink :: "unit sink" where
  "unconfigured_sink = \<lparr>new_bot = (\<lambda>t c. Inl (PyExc ConfigError ''no token'' None)),
       send_message = (\<lambda>b m k. Inr ()), send_attach = (\<lambda>b m a f k. Inr ())\<rparr>"

definition boom_exc :: py_exc where
  "boom_exc = PyExc ValueError ''boom'' None"

definition boom :: "(unit, int) callable" where
  "boom = \<lparr>func_name = ''f'', call = (\<lambda>u. Inl boom_exc)\<rparr>"

definition interrupt_exc :: py_exc where
  "interrupt_exc = PyExc KeyboardInterrupt [] None"

definition interrupted :: "(unit, int) callable" where
  "interrupted = \<lparr>func_name = ''f'', call = (\<lambda>u. Inl interrupt_exc)\<rparr>"

definition answer :: "(unit, int) callable" where
  "answer = \<lparr>func_name = ''g'', call = (\<lambda>u. Inr 42)\<rparr>"

text \<open>A loader under which every module that the handlers module imports is there.\<close>

definition ex_loader :: loader where
  "ex_loader m =
     (if m = ''functools'' then Inr [''wraps'']
      else if m = ''traceback'' then Inr [''format_exc'']
      else if m = ''datetime'' then Inr [''datetime'']
      else if m = ''typing'' then Inr [''List'', ''Optional'', ''Tuple'', ''Type'', ''Union'']
      else if m = ''easy_notifyer.env'' then Inr [''Env'']
      else if m = ''easy_notifyer.report'' then Inr [''Report'']
      else if m = ''easy_notifyer.telegram'' then Inr [''Telegram'', ''TelegramAsync'']
      else if m = ''easy_notifyer.utils'' then Inr [''run_sync'']
      else if m = ''easy_notifyer.mailer'' then Inr [''Mailer'']
      else if m = ''easy_notifyer.exceptions'' then Inr [''ConfigError'']
      else Inl (PyExc ImportError (''No module named '' @ m) None))"

definition ex_tback :: string where
  "ex_tback = ''Traceback (most recent call last): ValueError: boom''"

section \<open>Auxiliary facts\<close>

lemma issubclass_refl: "issubclass k k"
  by (cases k) simp_all

lemma raised_while_handling_size: "size exc < size (raised_while_handling err exc)"
  by (induction err exc rule: raised_while_handling.induct) simp_all

lemma raised_while_handling_neq: "raised_while_handling err exc \<noteq> exc"
proof
  assume "raised_while_handling err exc = exc"
  then have "size (raised_while_handling err exc) = size exc" by simp
  with raised_while_handling_size [of exc err] show False by simp
qed

lemma raised_while_handling_same:
  "kind (raised_while_handling err exc) = kind err \<and>
   message (raised_while_handling err exc) = message err"
  by (induction err exc rule: raised_while_handling.induct) simp_all


lemma zfill_numeral: "zfill (numeral k) n = zfill (pred_numeral k) (n div 10) @ [digit n]"
  by (subst numeral_eq_Suc) simp

lemma zfill_1: "zfill 1 n = [digit n]"
  by (simp add: One_nat_def del: One_nat_def [symmetric])

lemma exec_stmt_binds: "exec_stmt ld s ns = Inr ns' \<Longrightarrow> ns' = ns @ binds s"
  by (cases s) (auto split: sum.splits option.splits)

lemma exec_module_binds: "exec_module ld ss ns = Inr ns' \<Longrightarrow> ns' = ns @ bound_names ss"
proof (induction ss arbitrary: ns)
  case Nil
  then show ?case by (simp add: bound_names_def)
next
  case (Cons s ss)
  from Cons.prems obtain mid where
    step: "exec_stmt ld s ns = Inr mid" and rest: "exec_module ld ss mid = Inr ns'"
    by (auto split: sum.splits)
  from step have "mid = ns @ binds s" by (rule exec_stmt_binds)
  moreover from rest have "ns' = mid @ bound_names ss" by (rule Cons.IH)
  ultimately show ?case by (simp add: bound_names_def)
qed

lemma some_exception_matches: "\<exists>e. except_matches (exceptions_or_default flt) e"
proof -
  have single: "\<exists>e. except_matches (Single c) e" for c
    by (rule exI [of _ "PyExc c [] None"]) (simp add: issubclass_refl)
  have tuple: "\<exists>e. except_matches (Tuple (c # cs)) e" for c cs
    by (rule exI [of _ "PyExc c [] None"]) (simp add: issubclass_refl)
  show ?thesis
  proof (cases flt)
    case None
    with single show ?thesis by simp
  next
    case (Some f)
    show ?thesis
    proof (cases f)
      case (Single c)
      with Some single show ?thesis by simp
    next
      case (Tuple cs)
      with Some single tuple show ?thesis by (cases cs) simp_all
    qed
  qed
qed

lemma get_filename_example: "get_filename ex_env None = ''2021-03-04 05_06_07.txt''"
  by (simp add: get_filename_def ex_env_def ex_now_def default_dt_format_def directive_def
      zfill_numeral zfill_1 digit_def)

lemma async_report_handler_eq:
  "async_report_handler snk ev rep token cid kw = report_handler snk ev rep token cid kw"
  by (simp add: async_report_handler_def report_handler_def run_sync_def Let_def
      split: sum.splits option.splits prod.splits)

lemma telegram_reporter_matched:
  assumes "call func args = Inl exc"
    and "except_matches (exceptions_or_default exceptions) exc"
  shows "telegram_reporter snk ev token cid exceptions header as_attached params func args =
         (MakeReport (report_maker (format_exc ev exc) (Some (func_name func)) header as_attached)
            # fst (report_handler snk ev
                    (report_maker (format_exc ev exc) (Some (func_name func)) header as_attached)
                    token cid params),
          case snd (report_handler snk ev
                    (report_maker (format_exc ev exc) (Some (func_name func)) header as_attached)
                    token cid params) of
            Inl err \<Rightarrow> Inl (raised_while_handling err exc)
          | Inr u \<Rightarrow> Inl exc)"
  using assms
  by (simp add: telegram_reporter_def Let_def split: prod.splits sum.splits)

lemma async_telegram_reporter_matched:
  assumes "call func args = Inl exc"
    and "except_matches (exceptions_or_default exceptions) exc"
  shows "async_telegram_reporter snk ev token cid exceptions header as_attached params func args =
         (MakeReport (report_maker (format_exc ev exc) (Some (func_name func)) header as_attached)
            # fst (async_report_handler snk ev
                    (report_maker (format_exc ev exc) (Some (func_name func)) header as_attached)
                    token cid params),
          case snd (async_report_handler snk ev
                    (report_maker (format_exc ev exc) (Some (func_name func)) header as_attached)
                    token cid params) of
            Inl err \<Rightarrow> Inl (raised_while_handling err exc)
          | Inr u \<Rightarrow> Inl exc)"
  using assms
  by (simp add: async_telegram_reporter_def run_sync_def Let_def split: prod.splits sum.splits)

lemma boom_call: "call boom () = Inl boom_exc"
  by (simp add: boom_def)

lemma boom_matches_default: "except_matches (exceptions_or_default None) boom_exc"
  by (simp add: boom_exc_def ValueError_def Exception_def)

lemma boom_is_Exception: "issubclass (kind boom_exc) Exception"
  by (simp add: boom_exc_def ValueError_def Exception_def)

lemma interrupted_call: "call interrupted () = Inl interrupt_exc"
  by (simp add: interrupted_def)

lemma interrupt_not_Exception: "\<not> issubclass (kind interrupt_exc) Exception"
  by (simp add: interrupt_exc_def KeyboardInterrupt_def Exception_def)

lemma report_handler_ok_inline:
  "attach rep = None \<Longrightarrow>
   report_handler ok_sink ev rep token cid kw = ([SendMessage (report rep) kw], Inr ())"
  by (simp add: report_handler_def ok_sink_def)

lemma report_handler_timeout_inline:
  "attach rep = None \<Longrightarrow>
   report_handler timeout_sink ev rep token cid kw =
     ([SendMessage (report rep) kw], Inl (PyExc TransportError ''timed out'' None))"
  by (simp add: report_handler_def timeout_sink_def)

lemma report_handler_wrapping_inline:
  "attach rep = None \<Longrightarrow>
   report_handler wrapping_sink ev rep token cid kw =
     ([SendMessage (report rep) kw],
      Inl (PyExc TransportError ''timed out'' (Some (PyExc ValueError ''inner'' None))))"
  by (simp add: report_handler_def wrapping_sink_def)

lemma report_handler_unconfigured:
  "report_handler unconfigured_sink ev rep token cid kw =
     ([], Inl (PyExc ConfigError ''no token'' None))"
  by (simp add: report_handler_def unconfigured_sink_def)

lemma report_maker_inline_attach: "attach (report_maker tb fn h False) = None"
  by (simp add: report_maker_def Report_init_def Let_def)

lemma report_maker_attached_attach: "attach (report_maker tb fn h True) = Some tb"
  by (simp add: report_maker_def Report_init_def Let_def)

lemma pop_filename_empty: "pop_filename Map.empty = (None, Map.empty)"
  by (simp add: pop_filename_def)

lemma boom_async_run:
  "async_telegram_reporter ok_sink ex_env None None None None False Map.empty boom () =
     ([MakeReport (report_maker (format_exc ex_env boom_exc) (Some (func_name boom)) None False),
       SendMessage
         (report (report_maker (format_exc ex_env boom_exc) (Some (func_name boom)) None False))
         Map.empty],
      Inl boom_exc)"
  by (simp add: async_telegram_reporter_matched [OF boom_call boom_matches_default]
      async_report_handler_eq report_handler_ok_inline report_maker_inline_attach)

lemma handlers_lack_mailer_reporter: "\<not> List.member (bound_names handlers_py) ''mailer_reporter''"
  by (simp add: bound_names_def handlers_py_def)

lemma import_easy_notifyer_cases:
  "import_easy_notifyer ld =
     (case exec_module ld handlers_py [] of
        Inl e \<Rightarrow> Inl e
      | Inr ns \<Rightarrow> Inl (cannot_import ''mailer_reporter'' ''easy_notifyer.handlers''))"
proof (cases "exec_module ld handlers_py []")
  case (Inl e)
  then show ?thesis by (simp add: import_easy_notifyer_def init_py_def)
next
  case (Inr ns)
  then have "ns = bound_names handlers_py" using exec_module_binds [of ld handlers_py "[]" ns]
    by simp
  with handlers_lack_mailer_reporter have "\<not> List.member ns ''mailer_reporter''" by simp
  with Inr show ?thesis by (simp add: import_easy_notifyer_def init_py_def)
qed

lemma handlers_load_example:
  "exec_module ex_loader handlers_py [] = Inr (bound_names handlers_py)"
  by (simp add: handlers_py_def ex_loader_def bound_names_def)

lemma import_example:
  "import_easy_notifyer ex_loader
     = Inl (cannot_import ''mailer_reporter'' ''easy_notifyer.handlers'')"
  by (simp add: import_easy_notifyer_cases handlers_load_example)

text \<open>
  A dispatch error raised inside the client's own \<open>except\<close> block keeps the exception
  handled there as its context; the original exception ends the chain.
\<close>

lemma nested_context_example:
  "snd (telegram_reporter wrapping_sink ex_env None None None None False Map.empty boom ())
     = Inl (PyExc TransportError ''timed out''
              (Some (PyExc ValueError ''inner'' (Some boom_exc))))"
  by (simp add: telegram_reporter_matched [OF boom_call boom_matches_default]
      report_handler_wrapping_inline report_maker_inline_attach)

section \<open>The decorators: results\<close>

text \<open>
  C1, as stated, fails. The claim: whenever the wrapped callable raises an exception that
  the filter matches, the caller observes that exception, whether the dispatch succeeded
  or failed. Here the callable raises \<open>ValueError('boom')\<close>, the send operation raises a
  transport error, and the caller of either decorated callable observes the transport
  error.
\<close>

theorem reraise_regardless_of_dispatch_counterexample:
  "call boom () = Inl boom_exc \<and>
   except_matches (exceptions_or_default None) boom_exc \<and>
   snd (telegram_reporter timeout_sink ex_env None None None None False Map.empty boom ())
     = Inl (PyExc TransportError ''timed out'' (Some boom_exc)) \<and>
   snd (async_telegram_reporter timeout_sink ex_env None None None None False Map.empty boom ())
     = Inl (PyExc TransportError ''timed out'' (Some boom_exc)) \<and>
   kind (PyExc TransportError ''timed out'' (Some boom_exc)) \<noteq> kind boom_exc \<and>
   message (PyExc TransportError ''timed out'' (Some boom_exc)) \<noteq> message boom_exc"
proof -
  have sync: "snd (telegram_reporter timeout_sink ex_env None None None None False Map.empty
                boom ()) = Inl (PyExc TransportError ''timed out'' (Some boom_exc))"
    by (simp add: telegram_reporter_matched [OF boom_call boom_matches_default]
        report_handler_timeout_inline report_maker_inline_attach)
  have async: "snd (async_telegram_reporter timeout_sink ex_env None None None None False
                 Map.empty boom ()) = Inl (PyExc TransportError ''timed out'' (Some boom_exc))"
    by (simp add: async_telegram_reporter_matched [OF boom_call boom_matches_default]
        async_report_handler_eq report_handler_timeout_inline report_maker_inline_attach)
  have differ: "kind (PyExc TransportError ''timed out'' (Some boom_exc)) \<noteq> kind boom_exc \<and>
      message (PyExc TransportError ''timed out'' (Some boom_exc)) \<noteq> message boom_exc"
    by (simp add: boom_exc_def TransportError_def ValueError_def)
  from boom_call boom_matches_default sync async differ show ?thesis by blast
qed

text \<open>
  C1, amended. When the wrapped callable raises an exception that the filter matches,
  both decorated callables re-raise that same exception if the dispatch returns; if the
  dispatch raises, the caller observes the dispatch's exception instead of the original.
  The callable is one that has a \<open>__name__\<close>.
\<close>

theorem original_reraised_unless_dispatch_raises:
  assumes "call func args = Inl exc"
    and "except_matches (exceptions_or_default exceptions) exc"
  shows "snd (telegram_reporter snk ev token cid exceptions header as_attached params func args) =
           (case snd (report_handler snk ev
                       (report_maker (format_exc ev exc) (Some (func_name func)) header as_attached)
                       token cid params) of
              Inr u \<Rightarrow> Inl exc
            | Inl err \<Rightarrow> Inl (raised_while_handling err exc)) \<and>
         snd (async_telegram_reporter snk ev token cid exceptions header as_attached params
               func args) =
           (case snd (async_report_handler snk ev
                       (report_maker (format_exc ev exc) (Some (func_name func)) header as_attached)
                       token cid params) of
              Inr u \<Rightarrow> Inl exc
            | Inl err \<Rightarrow> Inl (raised_while_handling err exc))"
  by (simp add: telegram_reporter_matched [OF assms] async_telegram_reporter_matched [OF assms]
      split: sum.splits)

theorem original_reraised_unless_dispatch_raises_witness:
  "call boom () = Inl boom_exc \<and>
   except_matches (exceptions_or_default None) boom_exc \<and>
   snd (telegram_reporter ok_sink ex_env None None None None False Map.empty boom ())
     = Inl boom_exc \<and>
   snd (async_telegram_reporter ok_sink ex_env None None None None False Map.empty boom ())
     = Inl boom_exc"
proof -
  have "snd (telegram_reporter ok_sink ex_env None None None None False Map.empty boom ())
          = Inl boom_exc \<and>
        snd (async_telegram_reporter ok_sink ex_env None None None None False Map.empty boom ())
          = Inl boom_exc"
    using original_reraised_unless_dispatch_raises [OF boom_call boom_matches_default,
        of ok_sink ex_env None None None False Map.empty]
    by (simp add: async_report_handler_eq report_handler_ok_inline report_maker_inline_attach)
  with boom_call boom_matches_default show ?thesis by blast
qed

text \<open>
  C2. When the wrapped callable raises an exception that the configured filter does not
  match, both decorated callables let it through unchanged; no report is built and the
  transport client is not called.
\<close>

theorem unmatched_exception_passes_through:
  assumes "call func args = Inl exc"
    and "\<not> except_matches (exceptions_or_default exceptions) exc"
  shows "telegram_reporter snk ev token cid exceptions header as_attached params func args
           = ([], Inl exc) \<and>
         async_telegram_reporter snk ev token cid exceptions header as_attached params func args
           = ([], Inl exc)"
  using assms by (simp add: telegram_reporter_def async_telegram_reporter_def)

theorem unmatched_exception_passes_through_witness:
  "call boom () = Inl boom_exc \<and>
   \<not> except_matches (exceptions_or_default (Some (Single KeyError))) boom_exc \<and>
   telegram_reporter ok_sink ex_env None None (Some (Single KeyError)) None False Map.empty boom ()
     = ([], Inl boom_exc) \<and>
   async_telegram_reporter ok_sink ex_env None None (Some (Single KeyError)) None False Map.empty
     boom () = ([], Inl boom_exc)"
proof -
  have h1: "call boom () = Inl boom_exc" by (simp add: boom_def)
  have h2: "\<not> except_matches (exceptions_or_default (Some (Single KeyError))) boom_exc"
    by (simp add: boom_exc_def KeyError_def ValueError_def LookupError_def Exception_def)
  show ?thesis
    using h1 h2
      unmatched_exception_passes_through [OF h1 h2, of ok_sink ex_env None None None False Map.empty]
    by simp
qed

text \<open>
  C3, as stated, fails. The claim: without the \<open>exceptions\<close> parameter every exception
  of any kind is intercepted and reported. A \<open>KeyboardInterrupt\<close> raised by the wrapped
  callable passes through both decorated callables with no report.
\<close>

theorem default_filter_counterexample:
  "call interrupted () = Inl interrupt_exc \<and>
   telegram_reporter ok_sink ex_env None None None None False Map.empty interrupted ()
     = ([], Inl interrupt_exc) \<and>
   async_telegram_reporter ok_sink ex_env None None None None False Map.empty interrupted ()
     = ([], Inl interrupt_exc)"
  using interrupt_not_Exception
  by (simp add: telegram_reporter_def async_telegram_reporter_def interrupted_call)

text \<open>
  C3, amended. Without the \<open>exceptions\<close> parameter the filter is \<open>Exception\<close>: an
  exception whose class is \<open>Exception\<close> or derives from it is intercepted, a report is
  built and handed to the dispatch; any other exception passes through with no report.
\<close>

theorem default_filter_is_Exception:
  assumes "call func args = Inl exc"
  shows "telegram_reporter snk ev token cid None header as_attached params func args =
           (if issubclass (kind exc) Exception
            then (MakeReport
                    (report_maker (format_exc ev exc) (Some (func_name func)) header as_attached)
                  # fst (report_handler snk ev
                          (report_maker (format_exc ev exc) (Some (func_name func)) header
                             as_attached)
                          token cid params),
                  case snd (report_handler snk ev
                          (report_maker (format_exc ev exc) (Some (func_name func)) header
                             as_attached)
                          token cid params) of
                    Inl err \<Rightarrow> Inl (raised_while_handling err exc)
                  | Inr u \<Rightarrow> Inl exc)
            else ([], Inl exc)) \<and>
         async_telegram_reporter snk ev token cid None header as_attached params func args =
           (if issubclass (kind exc) Exception
            then (MakeReport
                    (report_maker (format_exc ev exc) (Some (func_name func)) header as_attached)
                  # fst (async_report_handler snk ev
                          (report_maker (format_exc ev exc) (Some (func_name func)) header
                             as_attached)
                          token cid params),
                  case snd (async_report_handler snk ev
                          (report_maker (format_exc ev exc) (Some (func_name func)) header
                             as_attached)
                          token cid params) of
                    Inl err \<Rightarrow> Inl (raised_while_handling err exc)
                  | Inr u \<Rightarrow> Inl exc)
            else ([], Inl exc))"
proof (cases "issubclass (kind exc) Exception")
  case True
  then have m: "except_matches (exceptions_or_default None) exc" by simp
  show ?thesis
    by (simp add: True telegram_reporter_matched [OF assms m]
        async_telegram_reporter_matched [OF assms m])
next
  case False
  with assms show ?thesis
    by (simp add: telegram_reporter_def async_telegram_reporter_def)
qed

theorem default_filter_is_Exception_witness:
  "call boom () = Inl boom_exc \<and>
   fst (telegram_reporter ok_sink ex_env None None None None False Map.empty boom ()) =
     [MakeReport (report_maker (simple_format_exc boom_exc) (Some ''f'') None False),
      SendMessage (report (report_maker (simple_format_exc boom_exc) (Some ''f'') None False))
        Map.empty] \<and>
   fst (async_telegram_reporter ok_sink ex_env None None None None False Map.empty boom ()) =
     [MakeReport (report_maker (simple_format_exc boom_exc) (Some ''f'') None False),
      SendMessage (report (report_maker (simple_format_exc boom_exc) (Some ''f'') None False))
        Map.empty]"
proof -
  have fe: "format_exc ex_env = simple_format_exc" by (simp add: ex_env_def)
  have fn: "func_name boom = ''f''" by (simp add: boom_def)
  have "fst (telegram_reporter ok_sink ex_env None None None None False Map.empty boom ()) =
     [MakeReport (report_maker (simple_format_exc boom_exc) (Some ''f'') None False),
      SendMessage (report (report_maker (simple_format_exc boom_exc) (Some ''f'') None False))
        Map.empty] \<and>
   fst (async_telegram_reporter ok_sink ex_env None None None None False Map.empty boom ()) =
     [MakeReport (report_maker (simple_format_exc boom_exc) (Some ''f'') None False),
      SendMessage (report (report_maker (simple_format_exc boom_exc) (Some ''f'') None False))
        Map.empty]"
    using default_filter_is_Exception [OF boom_call, of ok_sink ex_env None None None False
        Map.empty]
    by (simp add: boom_is_Exception fe fn async_report_handler_eq report_handler_ok_inline
        report_maker_inline_attach)
  with boom_call show ?thesis by blast
qed

text \<open>
  C4. In the async variant, a run in which the caller observes the original exception,
  raised by the wrapped callable and matched by the filter, has built the report and
  made exactly one call of the transport client, and the awaited dispatch and that call
  have returned, before the exception is raised again.
\<close>

theorem async_reraise_only_after_dispatch:
  fixes func :: "('a, 'r) callable"
  assumes "call func args = Inl exc"
    and "except_matches (exceptions_or_default exceptions) exc"
    and "async_telegram_reporter snk ev token cid exceptions header as_attached params func args
           = (tr, Inl exc)"
    and "rep = report_maker (format_exc ev exc) (Some (func_name func)) header as_attached"
  shows "\<exists>client sent.
           new_bot snk token cid = Inr client \<and>
           tr = [MakeReport rep, sent] \<and>
           async_report_handler snk ev rep token cid params = ([sent], Inr ()) \<and>
           (case attach rep of
              None \<Rightarrow>
                sent = SendMessage (report rep) params \<and>
                send_message snk client (report rep) params = Inr ()
            | Some payload \<Rightarrow>
                sent = SendAttach (report rep) payload
                         (get_filename ev (fst (pop_filename params))) (snd (pop_filename params)) \<and>
                send_attach snk client (report rep) payload
                  (get_filename ev (fst (pop_filename params))) (snd (pop_filename params))
                  = Inr ())"
proof -
  let ?h = "async_report_handler snk ev rep token cid params"
  from assms(3) have run:
    "tr = MakeReport rep # fst ?h"
    "(case snd ?h of Inl err \<Rightarrow> Inl (raised_while_handling err exc) | Inr u \<Rightarrow> Inl exc)
       = (Inl exc :: py_exc + 'r)"
    unfolding async_telegram_reporter_matched [OF assms(1,2)] assms(4) by simp_all
  have ok: "snd ?h = Inr ()"
  proof (cases "snd ?h")
    case (Inl err)
    with run(2) have "raised_while_handling err exc = exc" by simp
    with raised_while_handling_neq show ?thesis by blast
  next
    case (Inr u)
    then show ?thesis by simp
  qed
  obtain client where client: "new_bot snk token cid = Inr client"
    using ok by (cases "new_bot snk token cid") (simp_all add: async_report_handler_def)
  show ?thesis
  proof (cases "attach rep")
    case None
    with client ok run(1) show ?thesis
      by (simp add: async_report_handler_def)
  next
    case (Some payload)
    with client ok run(1) show ?thesis
      by (simp add: async_report_handler_def run_sync_def Let_def split: prod.splits)
  qed
qed

theorem async_reraise_only_after_dispatch_witness:
  "call boom () = Inl boom_exc \<and>
   except_matches (exceptions_or_default None) boom_exc \<and>
   async_telegram_reporter ok_sink ex_env None None None None False Map.empty boom () =
     ([MakeReport (report_maker (format_exc ex_env boom_exc) (Some (func_name boom)) None False),
       SendMessage
         (report (report_maker (format_exc ex_env boom_exc) (Some (func_name boom)) None False))
         Map.empty],
      Inl boom_exc) \<and>
   async_report_handler ok_sink ex_env
       (report_maker (format_exc ex_env boom_exc) (Some (func_name boom)) None False)
       None None Map.empty =
     ([SendMessage
         (report (report_maker (format_exc ex_env boom_exc) (Some (func_name boom)) None False))
         Map.empty],
      Inr ())"
proof -
  from async_reraise_only_after_dispatch [OF boom_call boom_matches_default boom_async_run refl]
  have "async_report_handler ok_sink ex_env
       (report_maker (format_exc ex_env boom_exc) (Some (func_name boom)) None False)
       None None Map.empty =
     ([SendMessage
         (report (report_maker (format_exc ex_env boom_exc) (Some (func_name boom)) None False))
         Map.empty],
      Inr ())"
    by auto
  with boom_call boom_matches_default boom_async_run show ?thesis by blast
qed

text \<open>
  C8. When the wrapped callable returns, both decorated callables return the same value;
  no report is built and the transport client is not called.
\<close>

theorem success_returns_value_without_report:
  assumes "call func args = Inr v"
  shows "telegram_reporter snk ev token cid exceptions header as_attached params func args
           = ([], Inr v) \<and>
         async_telegram_reporter snk ev token cid exceptions header as_attached params func args
           = ([], Inr v)"
  using assms by (simp add: telegram_reporter_def async_telegram_reporter_def)

theorem success_returns_value_without_report_witness:
  "call answer () = Inr 42 \<and>
   telegram_reporter ok_sink ex_env None None None None False Map.empty answer ()
     = ([], Inr 42) \<and>
   async_telegram_reporter ok_sink ex_env None None None None False Map.empty answer ()
     = ([], Inr 42)"
proof -
  have h: "call answer () = Inr 42" by (simp add: answer_def)
  show ?thesis
    using h success_returns_value_without_report [OF h, of ok_sink ex_env None None None None False Map.empty]
    by simp
qed

text \<open>
  C9. The empty tuple as \<open>exceptions\<close> is replaced by \<open>Exception\<close>, as the absent
  parameter is, in both decorators: the argument is not rejected, and an exception whose
  class is \<open>Exception\<close> or derives from it is intercepted, its report built and handed
  to the dispatch. Whatever the parameter's value, the resulting filter matches some
  exception, so a filter that matches nothing cannot be given.
\<close>

theorem empty_tuple_is_catch_all:
  "exceptions_or_default (Some (Tuple [])) = Single Exception \<and>
   exceptions_or_default (Some (Tuple [])) = exceptions_or_default None \<and>
   telegram_reporter snk ev token cid (Some (Tuple [])) header as_attached params func args
     = telegram_reporter snk ev token cid None header as_attached params func args \<and>
   async_telegram_reporter snk ev token cid (Some (Tuple [])) header as_attached params func args
     = async_telegram_reporter snk ev token cid None header as_attached params func args \<and>
   (\<exists>e. except_matches (exceptions_or_default flt) e) \<and>
   (call func args = Inl exc \<and> issubclass (kind exc) Exception \<longrightarrow>
      telegram_reporter snk ev token cid (Some (Tuple [])) header as_attached params func args =
        (MakeReport
           (report_maker (format_exc ev exc) (Some (func_name func)) header as_attached)
         # fst (report_handler snk ev
                 (report_maker (format_exc ev exc) (Some (func_name func)) header as_attached)
                 token cid params),
         case snd (report_handler snk ev
                 (report_maker (format_exc ev exc) (Some (func_name func)) header as_attached)
                 token cid params) of
           Inl err \<Rightarrow> Inl (raised_while_handling err exc)
         | Inr u \<Rightarrow> Inl exc) \<and>
      async_telegram_reporter snk ev token cid (Some (Tuple [])) header as_attached params
          func args =
        (MakeReport
           (report_maker (format_exc ev exc) (Some (func_name func)) header as_attached)
         # fst (async_report_handler snk ev
                 (report_maker (format_exc ev exc) (Some (func_name func)) header as_attached)
                 token cid params),
         case snd (async_report_handler snk ev
                 (report_maker (format_exc ev exc) (Some (func_name func)) header as_attached)
                 token cid params) of
           Inl err \<Rightarrow> Inl (raised_while_handling err exc)
         | Inr u \<Rightarrow> Inl exc))"
proof -
  have same: "telegram_reporter snk ev token cid (Some (Tuple [])) header as_attached params
        func args
      = telegram_reporter snk ev token cid None header as_attached params func args"
    "async_telegram_reporter snk ev token cid (Some (Tuple [])) header as_attached params
        func args
      = async_telegram_reporter snk ev token cid None header as_attached params func args"
    by (simp_all add: telegram_reporter_def async_telegram_reporter_def)
  have caught: "telegram_reporter snk ev token cid (Some (Tuple [])) header as_attached params
        func args =
        (MakeReport
           (report_maker (format_exc ev exc) (Some (func_name func)) header as_attached)
         # fst (report_handler snk ev
                 (report_maker (format_exc ev exc) (Some (func_name func)) header as_attached)
                 token cid params),
         case snd (report_handler snk ev
                 (report_maker (format_exc ev exc) (Some (func_name func)) header as_attached)
                 token cid params) of
           Inl err \<Rightarrow> Inl (raised_while_handling err exc)
         | Inr u \<Rightarrow> Inl exc) \<and>
      async_telegram_reporter snk ev token cid (Some (Tuple [])) header as_attached params
          func args =
        (MakeReport
           (report_maker (format_exc ev exc) (Some (func_name func)) header as_attached)
         # fst (async_report_handler snk ev
                 (report_maker (format_exc ev exc) (Some (func_name func)) header as_attached)
                 token cid params),
         case snd (async_report_handler snk ev
                 (report_maker (format_exc ev exc) (Some (func_name func)) header as_attached)
                 token cid params) of
           Inl err \<Rightarrow> Inl (raised_while_handling err exc)
         | Inr u \<Rightarrow> Inl exc)"
    if raised: "call func args = Inl exc" and isexc: "issubclass (kind exc) Exception"
  proof -
    from isexc have m: "except_matches (exceptions_or_default (Some (Tuple []))) exc" by simp
    show ?thesis
      by (simp only: telegram_reporter_matched [OF raised m]
          async_telegram_reporter_matched [OF raised m])
  qed
  have "exceptions_or_default (Some (Tuple [])) = Single Exception" by simp
  moreover have "exceptions_or_default (Some (Tuple [])) = exceptions_or_default None" by simp
  moreover note same some_exception_matches [of flt]
  ultimately show ?thesis using caught by blast
qed

theorem empty_tuple_is_catch_all_witness:
  "call boom () = Inl boom_exc \<and>
   issubclass (kind boom_exc) Exception \<and>
   telegram_reporter ok_sink ex_env None None (Some (Tuple [])) None False Map.empty boom () =
     ([MakeReport (report_maker (format_exc ex_env boom_exc) (Some (func_name boom)) None False),
       SendMessage
         (report (report_maker (format_exc ex_env boom_exc) (Some (func_name boom)) None False))
         Map.empty],
      Inl boom_exc) \<and>
   async_telegram_reporter ok_sink ex_env None None (Some (Tuple [])) None False Map.empty
       boom () =
     ([MakeReport (report_maker (format_exc ex_env boom_exc) (Some (func_name boom)) None False),
       SendMessage
         (report (report_maker (format_exc ex_env boom_exc) (Some (func_name boom)) None False))
         Map.empty],
      Inl boom_exc)"
proof -
  let ?r = "report_maker (format_exc ex_env boom_exc) (Some (func_name boom)) None False"
  note inst = empty_tuple_is_catch_all [of ok_sink ex_env None None None False Map.empty boom "()"
      None boom_exc]
  from inst boom_call boom_is_Exception have run:
    "telegram_reporter ok_sink ex_env None None (Some (Tuple [])) None False Map.empty boom () =
       (MakeReport ?r # fst (report_handler ok_sink ex_env ?r None None Map.empty),
        case snd (report_handler ok_sink ex_env ?r None None Map.empty) of
          Inl err \<Rightarrow> Inl (raised_while_handling err boom_exc)
        | Inr u \<Rightarrow> Inl boom_exc)"
    "async_telegram_reporter ok_sink ex_env None None (Some (Tuple [])) None False Map.empty
         boom () =
       (MakeReport ?r # fst (async_report_handler ok_sink ex_env ?r None None Map.empty),
        case snd (async_report_handler ok_sink ex_env ?r None None Map.empty) of
          Inl err \<Rightarrow> Inl (raised_while_handling err boom_exc)
        | Inr u \<Rightarrow> Inl boom_exc)"
    by blast+
  have handled: "report_handler ok_sink ex_env ?r None None Map.empty =
      ([SendMessage (report ?r) Map.empty], Inr ())"
    by (simp add: report_handler_ok_inline report_maker_inline_attach)
  have "telegram_reporter ok_sink ex_env None None (Some (Tuple [])) None False Map.empty
          boom () = ([MakeReport ?r, SendMessage (report ?r) Map.empty], Inl boom_exc)"
    by (simp only: run(1) handled fst_conv snd_conv sum.case)
  moreover have "async_telegram_reporter ok_sink ex_env None None (Some (Tuple [])) None False
          Map.empty boom () = ([MakeReport ?r, SendMessage (report ?r) Map.empty], Inl boom_exc)"
    by (simp only: run(2) async_report_handler_eq handled fst_conv snd_conv sum.case)
  ultimately show ?thesis using boom_call boom_is_Exception by blast
qed

section \<open>Reports: results\<close>



text \<open>
  The hypothesis is needed: a header that is the traceback text itself puts that text
  into the body.
\<close>

lemma caption_may_spell_traceback:
  "attach (report_maker ex_tback (Some ''f'') (Some ex_tback) True) = Some ex_tback \<and>
   sublist ex_tback (report (report_maker ex_tback (Some ''f'') (Some ex_tback) True))"
proof -
  have "report (report_maker ex_tback (Some ''f'') (Some ex_tback) True) =
          [] @ ex_tback @ (nl @ ''f'' @ nl)"
    by (simp add: report_maker_def Report_init_def func_name_line_def)
  then have "sublist ex_tback (report (report_maker ex_tback (Some ''f'') (Some ex_tback) True))"
    unfolding sublist_def by blast
  then show ?thesis by (simp add: report_maker_attached_attach)
qed

section \<open>Dispatch: results\<close>

text \<open>
  C6, as stated, fails. The claim: every dispatch calls exactly one of the two send
  operations. When constructing the transport client raises, neither is called.
\<close>

theorem one_send_per_dispatch_counterexample:
  "report_handler unconfigured_sink ex_env (report_maker ex_tback (Some ''f'') None False)
     None None Map.empty = ([], Inl (PyExc ConfigError ''no token'' None)) \<and>
   async_report_handler unconfigured_sink ex_env (report_maker ex_tback (Some ''f'') None False)
     None None Map.empty = ([], Inl (PyExc ConfigError ''no token'' None))"
  by (simp add: async_report_handler_eq report_handler_unconfigured)

text \<open>
  C6, amended. Whenever the transport client is constructed, a dispatch (sync or async)
  calls exactly one send operation: the one with attachment, with the body as caption,
  the attachment and the resolved file name, if and only if the report has an
  attachment, and otherwise the one for text, with the body. When constructing the
  client raises, neither is called.
\<close>

theorem one_send_per_constructed_client:
  "fst (report_handler snk ev rep token cid kw) =
     (case new_bot snk token cid of
        Inl err \<Rightarrow> []
      | Inr client \<Rightarrow>
          [case attach rep of
             None \<Rightarrow> SendMessage (report rep) kw
           | Some payload \<Rightarrow>
               SendAttach (report rep) payload (get_filename ev (fst (pop_filename kw)))
                 (snd (pop_filename kw))]) \<and>
   fst (async_report_handler snk ev rep token cid kw) =
     (case new_bot snk token cid of
        Inl err \<Rightarrow> []
      | Inr client \<Rightarrow>
          [case attach rep of
             None \<Rightarrow> SendMessage (report rep) kw
           | Some payload \<Rightarrow>
               SendAttach (report rep) payload (get_filename ev (fst (pop_filename kw)))
                 (snd (pop_filename kw))])"
  by (simp add: async_report_handler_eq report_handler_def Let_def
      split: sum.splits option.splits prod.splits)

theorem one_send_per_constructed_client_witness:
  "new_bot ok_sink None None = Inr () \<and>
   fst (report_handler ok_sink ex_env (report_maker ex_tback (Some ''f'') None True)
          None None Map.empty) =
     [SendAttach (report (report_maker ex_tback (Some ''f'') None True)) ex_tback
        ''2021-03-04 05_06_07.txt'' Map.empty] \<and>
   fst (async_report_handler ok_sink ex_env (report_maker ex_tback (Some ''f'') None True)
          None None Map.empty) =
     [SendAttach (report (report_maker ex_tback (Some ''f'') None True)) ex_tback
        ''2021-03-04 05_06_07.txt'' Map.empty]"
proof -
  have h: "new_bot ok_sink None None = Inr ()" by (simp add: ok_sink_def)
  show ?thesis
    using h one_send_per_constructed_client [of ok_sink ex_env
        "report_maker ex_tback (Some ''f'') None True" None None Map.empty]
    by (simp add: pop_filename_empty report_maker_attached_attach get_filename_example)
qed

section \<open>File names: results\<close>

text \<open>
  C7. An explicit file name is returned unchanged. With none, the result is the clock's
  time with the microseconds set to zero, formatted by the configured pattern, followed
  by \<open>.txt\<close>; the microseconds of the clock do not show in it.
\<close>

theorem get_filename_explicit_or_timestamp:
  "get_filename ev (Some n) = n \<and>
   get_filename ev None = strftime ev ((now ev)\<lparr>microsecond := 0\<rparr>) (dt_format ev) @ ''.txt'' \<and>
   microsecond ((now ev)\<lparr>microsecond := 0\<rparr>) = 0 \<and>
   get_filename (ev\<lparr>now := (now ev)\<lparr>microsecond := us\<rparr>\<rparr>) None = get_filename ev None"
  by (simp add: get_filename_def)

section \<open>Importing the package: results\<close>

text \<open>
  C10. The package's \<open>__init__\<close> lists \<open>mailer_reporter\<close> in \<open>__all__\<close> and imports it
  from the handlers module, which binds no such name: importing the package fails
  whatever the other modules are, and where the handlers module itself loads, it fails
  with the import error for \<open>mailer_reporter\<close>.
\<close>

theorem import_of_package_fails:
  "List.member dunder_all ''mailer_reporter'' \<and>
   \<not> List.member (bound_names handlers_py) ''mailer_reporter'' \<and>
   (\<exists>e. import_easy_notifyer ld = Inl e) \<and>
   import_easy_notifyer ld =
     (case exec_module ld handlers_py [] of
        Inl e \<Rightarrow> Inl e
      | Inr ns \<Rightarrow> Inl (cannot_import ''mailer_reporter'' ''easy_notifyer.handlers''))"
proof -
  have "List.member dunder_all ''mailer_reporter''" by (simp add: dunder_all_def)
  moreover have "\<exists>e. import_easy_notifyer ld = Inl e"
    by (simp add: import_easy_notifyer_cases split: sum.splits)
  ultimately show ?thesis
    using handlers_lack_mailer_reporter import_easy_notifyer_cases by blast
qed

end
